theory Spec2Isabelle
  imports Main
begin

section \<open>JavaScript values used by the adapter\<close>

text \<open>
  A thrown value. Every \<^verbatim>\<open>throw new Error(msg)\<close> of the sources is \<open>newError msg\<close>;
  errors raised by the SDK or the runtime may carry another constructor name and a
  \<^verbatim>\<open>code\<close> property (both are read by \<^verbatim>\<open>Logger.logConnectionFailure\<close>).
\<close>

record jsError =
  constructorName :: string
  message :: string
  code :: "string option"

definition newError :: "string \<Rightarrow> jsError" where
  "newError msg = \<lparr>constructorName = ''Error'', message = msg, code = None\<rparr>"

text \<open>
  \<^verbatim>\<open>process.env\<close>: a variable is a string or \<^verbatim>\<open>undefined\<close>.
\<close>

type_synonym environment = "string \<Rightarrow> string option"

text \<open>
  Truthiness of a possibly undefined string: \<^verbatim>\<open>undefined\<close> and \<^verbatim>\<open>''\<close> are falsy.
\<close>

fun truthy :: "string option \<Rightarrow> bool" where
  "truthy None = False"
| "truthy (Some s) = (s \<noteq> [])"

text \<open>\<^verbatim>\<open>x || d\<close> on a possibly undefined string with a string default.\<close>

fun orElse :: "string option \<Rightarrow> string \<Rightarrow> string" where
  "orElse None d = d"
| "orElse (Some s) d = (if s = [] then d else s)"

text \<open>\<^verbatim>\<open>Array.prototype.join\<close> on an array of strings.\<close>

fun join :: "string \<Rightarrow> string list \<Rightarrow> string" where
  "join sep [] = []"
| "join sep [x] = x"
| "join sep (x # y # ys) = x @ sep @ join sep (y # ys)"


text \<open>
  The rendering of an integral number inside a template literal
  (\<^verbatim>\<open>`${n}`\<close>): its decimal digits, with a minus sign when negative. (JavaScript
  prints integers this way below \<open>10\<^sup>2\<^sup>1\<close> in magnitude.)
\<close>

definition digitChar :: "nat \<Rightarrow> char" where
  "digitChar d = ''0123456789'' ! (d mod 10)"

fun natToString :: "nat \<Rightarrow> string" where
  "natToString n =
     (if n < 10 then [digitChar n] else natToString (n div 10) @ [digitChar (n mod 10)])"

declare natToString.simps [simp del]

definition numberToString :: "int \<Rightarrow> string" where
  "numberToString n =
     (if n < 0 then CHR ''-'' # natToString (nat (- n)) else natToString (nat n))"

section \<open>Configuration (src/config.ts)\<close>

text \<open>
  Modelled from the spec: the interface \<^verbatim>\<open>AzureDevOpsConfig\<close>
  (\<^verbatim>\<open>src/Interfaces/AzureDevOps\<close>) is not among the sources. Its fields are the ones
  the sources read and write and section 3 of the specification lists: required strings
  for organization URL and project, a token string that may be empty, the on-premises
  flag, optional collection and API version, an optional authentication descriptor and
  an optional externally supplied Entra credential handler. The descriptor's
  \<^verbatim>\<open>type\<close> is kept as the string the code compares it with (field \<open>authType\<close>).
\<close>

record authConfig =
  authType :: string
  username :: "string option"
  password :: "string option"
  domain :: "string option"

text \<open>An externally supplied credential handler object, known only by its identity.\<close>

datatype entraAuthHandler = EntraAuthHandler nat

record azureDevOpsConfig =
  orgUrl :: string
  project :: string
  personalAccessToken :: string
  isOnPremises :: bool
  collection :: "string option"
  apiVersion :: "string option"
  auth :: "authConfig option"
  entraAuthHandler :: "entraAuthHandler option"

text \<open>
  \<^verbatim>\<open>getAzureDevOpsConfig\<close> (config.ts, lines 118-205), with the environment as
  an argument. The \<^verbatim>\<open>console.error\<close> lines of the validation branch only print.
\<close>

definition getAzureDevOpsConfig :: "environment \<Rightarrow> jsError + azureDevOpsConfig" where
  \<open>getAzureDevOpsConfig env =
    (let orgUrl = env ''AZURE_DEVOPS_ORG_URL'';
         project = env ''AZURE_DEVOPS_PROJECT'';
         personalAccessToken = orElse (env ''AZURE_DEVOPS_PERSONAL_ACCESS_TOKEN'') [];
         isOnPremises = (env ''AZURE_DEVOPS_IS_ON_PREMISES'' = Some ''true'');
         collection = env ''AZURE_DEVOPS_COLLECTION'';
         apiVersion = env ''AZURE_DEVOPS_API_VERSION''
     in
     if \<not> truthy orgUrl \<or> \<not> truthy project then
       (let missingVars =
              (if \<not> truthy orgUrl then [''AZURE_DEVOPS_ORG_URL''] else []) @
              (if \<not> truthy project then [''AZURE_DEVOPS_PROJECT''] else [])
        in Inl (newError (''Missing required Azure DevOps configuration: '' @
                 join '', '' missingVars @
                 ''. Please check .env file or environment variables.'')))
     else
       (let authTypeInput = orElse (env ''AZURE_DEVOPS_AUTH_TYPE'') ''pat'';
            authType =
              (if authTypeInput = ''ntlm'' \<or> authTypeInput = ''basic'' \<or>
                  authTypeInput = ''pat'' \<or> authTypeInput = ''entra''
               then authTypeInput else ''pat'');
            authResult =
              (if authType = ''entra'' then
                 (if isOnPremises then
                    Inl (newError ''Azure Identity (DefaultAzureCredential) authentication is not supported for on-premises Azure DevOps.'')
                  else
                    Inr \<lparr>authType = ''entra'', username = None, password = None, domain = None\<rparr>)
               else if isOnPremises then
                 (if authType = ''ntlm'' then
                    (if \<not> truthy (env ''AZURE_DEVOPS_USERNAME'') \<or>
                        \<not> truthy (env ''AZURE_DEVOPS_PASSWORD'')
                     then Inl (newError ''NTLM authentication requires username and password.'')
                     else Inr \<lparr>authType = ''ntlm'',
                               username = env ''AZURE_DEVOPS_USERNAME'',
                               password = env ''AZURE_DEVOPS_PASSWORD'',
                               domain = env ''AZURE_DEVOPS_DOMAIN''\<rparr>)
                  else if authType = ''basic'' then
                    (if \<not> truthy (env ''AZURE_DEVOPS_USERNAME'') \<or>
                        \<not> truthy (env ''AZURE_DEVOPS_PASSWORD'')
                     then Inl (newError ''Basic authentication requires username and password.'')
                     else Inr \<lparr>authType = ''basic'',
                               username = env ''AZURE_DEVOPS_USERNAME'',
                               password = env ''AZURE_DEVOPS_PASSWORD'',
                               domain = None\<rparr>)
                  else
                    (if personalAccessToken = [] then
                       Inl (newError ''PAT authentication requires a personal access token.'')
                     else
                       Inr \<lparr>authType = ''pat'', username = None, password = None, domain = None\<rparr>))
               else
                 (if authType = ''pat'' then
                    (if personalAccessToken = [] then
                       Inl (newError ''PAT authentication requires a personal access token for Azure DevOps cloud unless AZURE_DEVOPS_AUTH_TYPE is set to entra.'')
                     else
                       Inr \<lparr>authType = ''pat'', username = None, password = None, domain = None\<rparr>)
                  else
                    Inl (newError (''Unsupported auth type "'' @ authType @
                           ''" for Azure DevOps cloud. Must be 'pat' or 'entra'.''))))
        in
        case authResult of
          Inl e \<Rightarrow> Inl e
        | Inr a \<Rightarrow>
            \<comment> \<open>both are non-empty strings on this branch\<close>
            Inr \<lparr>orgUrl = the orgUrl,
                 project = the project,
                 personalAccessToken = personalAccessToken,
                 isOnPremises = isOnPremises,
                 collection = collection,
                 apiVersion = apiVersion,
                 auth = Some a,
                 entraAuthHandler = None\<rparr>))\<close>

section \<open>Connection factory (AzureDevOpsService constructor)\<close>

text \<open>
  The credential handlers of the SDK (\<^verbatim>\<open>getPersonalAccessTokenHandler\<close>,
  \<^verbatim>\<open>getNtlmHandler\<close>, \<^verbatim>\<open>getBasicHandler\<close>) are free constructors over their
  arguments; the Entra handler is the supplied object itself.
\<close>

datatype requestHandler =
    PersonalAccessTokenHandler string
  | NtlmHandler string string "string option"
  | BasicHandler string string
  | EntraHandler entraAuthHandler

text \<open>\<^verbatim>\<open>IRequestOptions\<close>: only \<^verbatim>\<open>headers\<close> is ever set.\<close>

record requestOptions =
  headers :: "(string \<times> string) list option"

text \<open>
  A \<^verbatim>\<open>WebApi\<close> object is known by the three arguments it was constructed from.
\<close>

record webApi =
  serverUrl :: string
  handler :: requestHandler
  options :: requestOptions

record azureDevOpsService =
  config :: azureDevOpsConfig
  authHandler :: requestHandler
  connection :: webApi

text \<open>
  The constructor of \<^verbatim>\<open>AzureDevOpsService\<close> (lines 236-367). The SDK's
  \<^verbatim>\<open>new azdev.WebApi(baseUrl, authHandler, requestOptions)\<close> may throw: the argument
  \<open>webApiThrows\<close> says with what, for which arguments. Calls of the logger write to the
  log and do not change the control flow; they are left out here
  (\<^verbatim>\<open>logConnectionFailure\<close> is modelled in its own section).
\<close>

definition AzureDevOpsService ::
  "(string \<Rightarrow> requestHandler \<Rightarrow> requestOptions \<Rightarrow> jsError option) \<Rightarrow>
   azureDevOpsConfig \<Rightarrow> jsError + azureDevOpsService" where
  \<open>AzureDevOpsService webApiThrows cfg =
    (let handlerResult =
       (if map_option authType (auth cfg) = Some ''entra'' then
          (if isOnPremises cfg then
             Inl (newError ''Azure Identity (DefaultAzureCredential) authentication is not supported for on-premises Azure DevOps.'')
           else
             (case entraAuthHandler cfg of
                None \<Rightarrow> Inl (newError ''Entra authentication requires an instance of EntraAuthHandler.'')
              | Some h \<Rightarrow> Inr (EntraHandler h)))
        else if isOnPremises cfg \<and> auth cfg \<noteq> None then
          (let a = the (auth cfg) in
           if authType a = ''ntlm'' then
             (if \<not> truthy (username a) \<or> \<not> truthy (password a) then
                Inl (newError ''NTLM authentication requires username and password'')
              else Inr (NtlmHandler (the (username a)) (the (password a)) (domain a)))
           else if authType a = ''basic'' then
             (if \<not> truthy (username a) \<or> \<not> truthy (password a) then
                Inl (newError ''Basic authentication requires username and password'')
              else Inr (BasicHandler (the (username a)) (the (password a))))
           else
             (if personalAccessToken cfg = [] then
                Inl (newError ''PAT authentication requires a personal access token for on-premises if specified or as fallback.'')
              else Inr (PersonalAccessTokenHandler (personalAccessToken cfg))))
        else
          (if map_option authType (auth cfg) = Some ''pat'' \<or> auth cfg = None then
             (if personalAccessToken cfg = [] then
                Inl (newError ''Personal Access Token is required for cloud authentication when auth type is PAT or not specified.'')
              else Inr (PersonalAccessTokenHandler (personalAccessToken cfg)))
           else
             Inl (newError (''Unsupported authentication type "'' @
                    authType (the (auth cfg)) @ ''" for Azure DevOps cloud.''))))
     in
     case handlerResult of
       Inl e \<Rightarrow> Inl e
     | Inr h \<Rightarrow>
         (let baseUrl =
                (if isOnPremises cfg \<and> truthy (collection cfg)
                 then orgUrl cfg @ ''/'' @ the (collection cfg)
                 else orgUrl cfg);
              requestOptions =
                (if isOnPremises cfg \<and> truthy (apiVersion cfg)
                 then \<lparr>headers = Some [(''Accept'',
                         ''application/json;api-version='' @ the (apiVersion cfg))]\<rparr>
                 else \<lparr>headers = None\<rparr>)
          in
          case webApiThrows baseUrl h requestOptions of
            Some e \<Rightarrow> Inl e
          | None \<Rightarrow>
              Inr \<lparr>config = cfg,
                   authHandler = h,
                   connection = \<lparr>serverUrl = baseUrl, handler = h, options = requestOptions\<rparr>\<rparr>))\<close>

section \<open>The Git client of the SDK\<close>

text \<open>
  \<^verbatim>\<open>GitRepository\<close> and \<^verbatim>\<open>GitPullRequest\<close> are types of the SDK; all their properties
  are optional. Of a repository only \<^verbatim>\<open>id\<close> is read (field \<open>id'\<close>). Of a pull request
  the sources read \<^verbatim>\<open>repository\<close>, \<^verbatim>\<open>status\<close> and \<^verbatim>\<open>mergeStatus\<close>; every other
  property is carried along in \<open>otherFields\<close>. The type \<open>'s\<close> of the two status fields is
  \<open>int\<close> in what the SDK returns and \<open>string\<close> in what \<^verbatim>\<open>GitService.getPullRequest\<close>
  returns.
\<close>

record gitRepository =
  id' :: "string option"

record ('s, 'o) pullRequestObject =
  repository :: "gitRepository option"
  status :: "'s option"
  mergeStatus :: "'s option"
  otherFields :: 'o

type_synonym 'o gitPullRequest = "(int, 'o) pullRequestObject"

text \<open>
  The thread context sent with a new comment thread: the object supplied by the caller,
  or the one built from file path and line (offsets 1 and 999).
\<close>

datatype 'c threadContext =
    SuppliedThreadContext 'c
  | FileThreadContext string int

text \<open>
  The calls of the SDK that \<^verbatim>\<open>GitService\<close> makes on pull requests, with their
  arguments in the order of the source:
  \<^item> \<open>GetPullRequest repositoryId pullRequestId project\<close>
  \<^item> \<open>GetPullRequestById pullRequestId\<close>
  \<^item> \<open>CreatePullRequestReviewer vote repositoryId pullRequestId reviewerId project\<close>
  \<^item> \<open>UpdatePullRequest status mergeStrategy deleteSourceBranch repositoryId pullRequestId project\<close>
  \<^item> \<open>CreateComment content parentCommentId commentType repositoryId pullRequestId threadId project\<close>
  \<^item> \<open>CreateThread content threadStatus threadContext repositoryId pullRequestId project\<close>
    (one comment with parentCommentId 0 and commentType 1)
\<close>

datatype 'c sdkCall =
    GetGitApi
  | GetPullRequest string int string
  | GetPullRequestById int
  | CreatePullRequestReviewer int string int string string
  | UpdatePullRequest int int "bool option" string int "string option"
  | CreateComment string int int string int int string
  | CreateThread string int "'c threadContext option" string int string

fun isMutating :: "'c sdkCall \<Rightarrow> bool" where
  "isMutating GetGitApi = False"
| "isMutating (GetPullRequest _ _ _) = False"
| "isMutating (GetPullRequestById _) = False"
| "isMutating (CreatePullRequestReviewer _ _ _ _ _) = True"
| "isMutating (UpdatePullRequest _ _ _ _ _ _) = True"
| "isMutating (CreateComment _ _ _ _ _ _ _) = True"
| "isMutating (CreateThread _ _ _ _ _ _) = True"

text \<open>
  An asynchronous computation over the SDK: given the calls made so far it ends in a
  thrown error or a value, and extends the list by the calls it made.
\<close>

type_synonym ('a, 'c) sdk = "'c sdkCall list \<Rightarrow> (jsError + 'a) \<times> 'c sdkCall list"

definition resolve :: "'a \<Rightarrow> ('a, 'c) sdk" where
  "resolve x h = (Inr x, h)"

definition throw :: "jsError \<Rightarrow> ('a, 'c) sdk" where
  "throw e h = (Inl e, h)"

text \<open>
  \<open>await c answer\<close> makes the call \<open>c\<close>: the SDK's answer may depend on everything
  called before, and the call is recorded.
\<close>

definition await :: "'c sdkCall \<Rightarrow> ('c sdkCall list \<Rightarrow> jsError + 'a) \<Rightarrow> ('a, 'c) sdk" where
  "await c answer h = (answer h, h @ [c])"

text \<open>Sequencing: a thrown error skips the rest.\<close>

definition andThen :: "('a, 'c) sdk \<Rightarrow> ('a \<Rightarrow> ('b, 'c) sdk) \<Rightarrow> ('b, 'c) sdk" where
  "andThen m k h = (case m h of (Inl e, h') \<Rightarrow> (Inl e, h') | (Inr x, h') \<Rightarrow> k x h')"

text \<open>
  \<^verbatim>\<open>GitApi\<close>: the answer of each method, for the calls made so far and its arguments.
  \<^verbatim>\<open>getPullRequest\<close> may answer \<^verbatim>\<open>null\<close> (\<open>None\<close>). The results of the other methods
  are returned to the caller as they are (type \<open>'r\<close>).
\<close>

record ('o, 'r, 'c) gitApi =
  getPullRequest ::
    "'c sdkCall list \<Rightarrow> string \<Rightarrow> int \<Rightarrow> string \<Rightarrow> jsError + 'o gitPullRequest option"
  getPullRequestById :: "'c sdkCall list \<Rightarrow> int \<Rightarrow> jsError + 'r"
  createPullRequestReviewer ::
    "'c sdkCall list \<Rightarrow> int \<Rightarrow> string \<Rightarrow> int \<Rightarrow> string \<Rightarrow> string \<Rightarrow> jsError + 'r"
  updatePullRequest ::
    "'c sdkCall list \<Rightarrow> int \<Rightarrow> int \<Rightarrow> bool option \<Rightarrow> string \<Rightarrow> int \<Rightarrow> string option \<Rightarrow>
     jsError + 'r"
  createComment ::
    "'c sdkCall list \<Rightarrow> string \<Rightarrow> int \<Rightarrow> int \<Rightarrow> string \<Rightarrow> int \<Rightarrow> int \<Rightarrow> string \<Rightarrow>
     jsError + 'r"
  createThread ::
    "'c sdkCall list \<Rightarrow> string \<Rightarrow> int \<Rightarrow> 'c threadContext option \<Rightarrow> string \<Rightarrow> int \<Rightarrow> string \<Rightarrow>
     jsError + 'r"

section \<open>Repository validation (utils/repositoryValidation)\<close>

text \<open>\<^verbatim>\<open>validatePullRequestRepository\<close> (lines 179-201).\<close>

definition validatePullRequestRepository ::
  "('o, 'r, 'c) gitApi \<Rightarrow> string \<Rightarrow> int \<Rightarrow> string \<Rightarrow> (unit, 'c) sdk" where
  "validatePullRequestRepository gitApi repositoryId pullRequestId projectId =
     andThen
       (await (GetPullRequest repositoryId pullRequestId projectId)
          (\<lambda>h. gitApi.getPullRequest gitApi h repositoryId pullRequestId projectId))
       (\<lambda>pullRequest.
          case pullRequest of
            None \<Rightarrow>
              throw (newError (''Pull request '' @ numberToString pullRequestId @
                       '' not found in repository '' @ repositoryId))
          | Some pr \<Rightarrow>
              (case repository pr of
                 None \<Rightarrow> resolve ()
               | Some r \<Rightarrow>
                   if id' r \<noteq> Some repositoryId then
                     throw (newError (''Pull request '' @ numberToString pullRequestId @
                              '' belongs to repository '' @
                              (case id' r of None \<Rightarrow> ''undefined'' | Some i \<Rightarrow> i) @
                              '', not '' @ repositoryId))
                   else resolve ()))"

section \<open>GitService: pull requests\<close>

text \<open>
  Modelled from the spec: the parameter interfaces of
  \<^verbatim>\<open>src/Interfaces/CodeAndRepositories\<close> are not among the sources ("each
  resource-service method accepts a parameter object already validated by a schema").
  Each record has the properties its method reads; a property marked optional by the way
  the method tests it is an \<open>option\<close>.
\<close>

record pullRequestParams =
  repositoryId :: string
  pullRequestId :: int

record mergePullRequestParams = pullRequestParams +
  mergeStrategy :: "string option"

record completePullRequestParams = mergePullRequestParams +
  deleteSourceBranch :: "bool option"

record 'c addPullRequestCommentParams = pullRequestParams +
  content :: string
  threadId :: "int option"
  parentCommentId :: "int option"
  threadContext :: "'c option"
  filePath :: "string option"
  lineNumber :: "int option"

text \<open>
  A \<^verbatim>\<open>GitService\<close> is an \<^verbatim>\<open>AzureDevOpsService\<close>; \<open>connectionGetGitApi\<close> is the answer
  of its connection to \<^verbatim>\<open>getGitApi()\<close>.
\<close>

record ('o, 'r, 'c) gitService = azureDevOpsService +
  connectionGetGitApi :: "'c sdkCall list \<Rightarrow> jsError + ('o, 'r, 'c) gitApi"

definition getGitApi :: "('o, 'r, 'c) gitService \<Rightarrow> (('o, 'r, 'c) gitApi, 'c) sdk" where
  "getGitApi this = await GetGitApi (connectionGetGitApi this)"

text \<open>
  Every method below is wrapped in \<^verbatim>\<open>try { ... } catch (error) { console.error(...);
  throw error; }\<close>: the error is printed and thrown again unchanged, so the wrapper
  does not show in the result.
\<close>

text \<open>\<^verbatim>\<open>getPullRequestStatusText\<close> (lines 809-817).\<close>

definition getPullRequestStatusText :: "int \<Rightarrow> string" where
  "getPullRequestStatusText statusValue =
     (if statusValue = 0 then ''notSet''
      else if statusValue = 1 then ''active''
      else if statusValue = 2 then ''abandoned''
      else if statusValue = 3 then ''completed''
      else ''unknown('' @ numberToString statusValue @ '')'')"

text \<open>\<^verbatim>\<open>getMergeStatusText\<close> (lines 824-834).\<close>

definition getMergeStatusText :: "int \<Rightarrow> string" where
  "getMergeStatusText mergeStatusValue =
     (if mergeStatusValue = 1 then ''conflicts''
      else if mergeStatusValue = 2 then ''failure''
      else if mergeStatusValue = 3 then ''notSet''
      else if mergeStatusValue = 4 then ''queued''
      else if mergeStatusValue = 5 then ''rejectedByPolicy''
      else if mergeStatusValue = 6 then ''succeeded''
      else ''unknown('' @ numberToString mergeStatusValue @ '')'')"

text \<open>
  The \<^verbatim>\<open>TypeError\<close> of the runtime when a property of \<^verbatim>\<open>null\<close> is read (the wording of
  the message is the engine's).
\<close>

definition nullPropertyError :: "string \<Rightarrow> jsError" where
  "nullPropertyError property =
     \<lparr>constructorName = ''TypeError'',
      message = ''Cannot read properties of null (reading '' @ [CHR 0x27] @ property @
                [CHR 0x27] @ '')'',
      code = None\<rparr>"

text \<open>
  \<^verbatim>\<open>GitService.getPullRequest\<close> (lines 774-802): \<^verbatim>\<open>status ?? 0\<close> and
  \<^verbatim>\<open>mergeStatus ?? 3\<close>, then the two texts replace the numbers in a copy of the object.
  (The name carries its class, since \<open>getPullRequest\<close> is the method of the SDK's client.)
\<close>

definition GitService_getPullRequest ::
  "('o, 'r, 'c) gitService \<Rightarrow> pullRequestParams \<Rightarrow> ((string, 'o) pullRequestObject, 'c) sdk" where
  "GitService_getPullRequest this params =
     andThen (getGitApi this) (\<lambda>gitApi.
     andThen
       (await (GetPullRequest (repositoryId params) (pullRequestId params) (project (config this)))
          (\<lambda>h. gitApi.getPullRequest gitApi h (repositoryId params) (pullRequestId params)
                 (project (config this))))
       (\<lambda>pullRequest.
          case pullRequest of
            None \<Rightarrow> throw (nullPropertyError ''status'')
          | Some pr \<Rightarrow>
              (let statusNumber = (case status pr of None \<Rightarrow> 0 | Some n \<Rightarrow> n);
                   statusText = getPullRequestStatusText statusNumber;
                   mergeStatusNumber = (case mergeStatus pr of None \<Rightarrow> 3 | Some n \<Rightarrow> n);
                   mergeStatusText = getMergeStatusText mergeStatusNumber
               in resolve \<lparr>repository = repository pr,
                           status = Some statusText,
                           mergeStatus = Some mergeStatusText,
                           otherFields = otherFields pr\<rparr>)))"

text \<open>The merge strategy given by name, as the number the SDK expects (default 1).\<close>

definition mergeStrategyNumber :: "string option \<Rightarrow> int" where
  "mergeStrategyNumber strategy =
     (if strategy = Some ''rebase'' then 2
      else if strategy = Some ''rebaseMerge'' then 3
      else if strategy = Some ''squash'' then 4
      else 1)"

text \<open>\<^verbatim>\<open>approvePullRequest\<close> (lines 878-907).\<close>

definition approvePullRequest ::
  "('o, 'r, 'c) gitService \<Rightarrow> pullRequestParams \<Rightarrow> ('r, 'c) sdk" where
  "approvePullRequest this params =
     andThen (getGitApi this) (\<lambda>gitApi.
     andThen
       (validatePullRequestRepository gitApi (repositoryId params) (pullRequestId params)
          (project (config this)))
       (\<lambda>_.
          await (CreatePullRequestReviewer 10 (repositoryId params) (pullRequestId params)
                   ''me'' (project (config this)))
            (\<lambda>h. createPullRequestReviewer gitApi h 10 (repositoryId params)
                   (pullRequestId params) ''me'' (project (config this)))))"

text \<open>\<^verbatim>\<open>mergePullRequest\<close> (lines 912-947).\<close>

definition mergePullRequest ::
  "('o, 'r, 'c) gitService \<Rightarrow> mergePullRequestParams \<Rightarrow> ('r, 'c) sdk" where
  "mergePullRequest this params =
     andThen (getGitApi this) (\<lambda>gitApi.
     andThen
       (validatePullRequestRepository gitApi (repositoryId params) (pullRequestId params)
          (project (config this)))
       (\<lambda>_.
          let mergeStrategy = mergeStrategyNumber (mergeStrategy params) in
          await (UpdatePullRequest 3 mergeStrategy None (repositoryId params)
                   (pullRequestId params) (Some (project (config this))))
            (\<lambda>h. updatePullRequest gitApi h 3 mergeStrategy None (repositoryId params)
                   (pullRequestId params) (Some (project (config this))))))"

text \<open>\<^verbatim>\<open>addPullRequestComment\<close> (lines 952-1020).\<close>

definition addPullRequestComment ::
  "('o, 'r, 'c) gitService \<Rightarrow> 'c addPullRequestCommentParams \<Rightarrow> ('r, 'c) sdk" where
  "addPullRequestComment this params =
     andThen (getGitApi this) (\<lambda>gitApi.
     andThen
       (validatePullRequestRepository gitApi (repositoryId params) (pullRequestId params)
          (project (config this)))
       (\<lambda>_.
          if threadId params \<noteq> None \<and> threadId params \<noteq> Some 0 then
            (let parent = (case parentCommentId params of None \<Rightarrow> 0 | Some n \<Rightarrow> n) in
             await (CreateComment (content params) parent 1 (repositoryId params)
                      (pullRequestId params) (the (threadId params)) (project (config this)))
               (\<lambda>h. createComment gitApi h (content params) parent 1 (repositoryId params)
                      (pullRequestId params) (the (threadId params)) (project (config this))))
          else
            (let context =
                   (case threadContext params of
                      Some c \<Rightarrow> Some (SuppliedThreadContext c)
                    | None \<Rightarrow>
                        if truthy (filePath params) \<and> lineNumber params \<noteq> None \<and>
                           lineNumber params \<noteq> Some 0
                        then Some (FileThreadContext (the (filePath params))
                                     (the (lineNumber params)))
                        else None)
             in
             await (CreateThread (content params) 1 context (repositoryId params)
                      (pullRequestId params) (project (config this)))
               (\<lambda>h. createThread gitApi h (content params) 1 context (repositoryId params)
                      (pullRequestId params) (project (config this))))))"

text \<open>\<^verbatim>\<open>completePullRequest\<close> (lines 1025-1064).\<close>

definition completePullRequest ::
  "('o, 'r, 'c) gitService \<Rightarrow> completePullRequestParams \<Rightarrow> ('r, 'c) sdk" where
  "completePullRequest this params =
     andThen (getGitApi this) (\<lambda>gitApi.
     andThen
       (validatePullRequestRepository gitApi (repositoryId params) (pullRequestId params)
          (project (config this)))
       (\<lambda>_.
     andThen
       (await (GetPullRequestById (pullRequestId params))
          (\<lambda>h. getPullRequestById gitApi h (pullRequestId params)))
       (\<lambda>pullRequest.
          let mergeStrategy = mergeStrategyNumber (mergeStrategy params) in
          await (UpdatePullRequest 3 mergeStrategy (deleteSourceBranch params)
                   (repositoryId params) (pullRequestId params) None)
            (\<lambda>h. updatePullRequest gitApi h 3 mergeStrategy (deleteSourceBranch params)
                   (repositoryId params) (pullRequestId params) None))))"

section \<open>Logging of connection failures (utils/logger)\<close>

text \<open>A value handed to the logger as context: what \<^verbatim>\<open>JSON.stringify\<close> will print.\<close>

datatype jsValue =
    JsString string
  | JsBoolean bool
  | JsUndefined
  | JsObject "(string \<times> jsValue) list"

datatype logLevel = ERROR | WARN | INFO | DEBUG

text \<open>
  A log entry: level, component, message, context, error. (The timestamp is the clock's.)
\<close>

datatype logEntry = LogEntry logLevel string string "jsValue option" "jsError option"

text \<open>
  \<^verbatim>\<open>s.replace(/\/\/[^\/]+/, '//***')\<close>: the leftmost place where two slashes are followed
  by a character other than a slash; from there the two slashes and the whole run of
  non-slash characters become \<^verbatim>\<open>//***\<close>. Without such a place the string is unchanged.
\<close>

fun maskHost :: "string \<Rightarrow> string" where
  "maskHost (a # b # c # cs) =
     (if a = CHR ''/'' \<and> b = CHR ''/'' \<and> c \<noteq> CHR ''/''
      then ''//***'' @ dropWhile (\<lambda>x. x \<noteq> CHR ''/'') cs
      else a # maskHost (b # c # cs))"
| "maskHost cs = cs"

text \<open>
  The object \<^verbatim>\<open>sanitizedConfig\<close> built by \<^verbatim>\<open>logConnectionFailure\<close> (lines 144-153),
  property by property.
\<close>

definition sanitizedConfig :: "azureDevOpsConfig \<Rightarrow> (string \<times> jsValue) list" where
  "sanitizedConfig cfg =
     [(''orgUrl'',
         JsString (if orgUrl cfg \<noteq> [] then maskHost (orgUrl cfg) else ''not provided'')),
      (''authType'',
         JsString (case auth cfg of
                     None \<Rightarrow> ''not specified''
                   | Some a \<Rightarrow> if authType a \<noteq> [] then authType a else ''not specified'')),
      (''isOnPremises'', JsBoolean (isOnPremises cfg)),
      (''hasToken'', JsBoolean (personalAccessToken cfg \<noteq> [])),
      (''hasUsername'',
         JsBoolean (case auth cfg of None \<Rightarrow> False | Some a \<Rightarrow> truthy (username a))),
      (''collection'', JsString (orElse (collection cfg) ''not specified'')),
      (''apiVersion'', JsString (orElse (apiVersion cfg) ''not specified'')),
      (''project'',
         JsString (if project cfg \<noteq> [] then project cfg else ''not specified''))]"

text \<open>
  \<^verbatim>\<open>Logger.logConnectionFailure\<close> (lines 143-160): the entry it hands to
  \<^verbatim>\<open>this.error\<close>.
\<close>

definition logConnectionFailure :: "string \<Rightarrow> jsError \<Rightarrow> azureDevOpsConfig \<Rightarrow> logEntry" where
  "logConnectionFailure component error cfg =
     LogEntry ERROR component ''Connection failed''
       (Some (JsObject
          [(''config'', JsObject (sanitizedConfig cfg)),
           (''errorCode'', (case code error of None \<Rightarrow> JsUndefined | Some c \<Rightarrow> JsString c)),
           (''errorType'', JsString (constructorName error))]))
       (Some error)"

section \<open>Allowed tools (src/config.ts)\<close>




section \<open>Example objects\<close>

text \<open>
  A client whose pull request 42 sits in repository \<^verbatim>\<open>repoB\<close> with neither status set,
  whose pull request 7 carries no repository and is active and merged cleanly, and which
  knows no other pull request; and a service over it for the project \<^verbatim>\<open>proj\<close>.
\<close>

definition exampleGitApi :: "(string, string, unit) gitApi" where
  "exampleGitApi =
     \<lparr>getPullRequest = (\<lambda>h repo n p.
          if n = 42 then
            Inr (Some \<lparr>repository = Some \<lparr>id' = Some ''repoB''\<rparr>, status = None,
                       mergeStatus = None, otherFields = ''title: Fix the build''\<rparr>)
          else if n = 7 then
            Inr (Some \<lparr>repository = None, status = Some 1, mergeStatus = Some 6,
                       otherFields = ''title: Add a test''\<rparr>)
          else Inr None),
      getPullRequestById = (\<lambda>h n. Inr ''pull request''),
      createPullRequestReviewer = (\<lambda>h vote repo n reviewer p. Inr ''voted''),
      updatePullRequest = (\<lambda>h st strategy del repo n p. Inr ''updated''),
      createComment = (\<lambda>h text parent kind repo n thread p. Inr ''commented''),
      createThread = (\<lambda>h text st ctx repo n p. Inr ''thread created'')\<rparr>"

definition exampleConfig :: azureDevOpsConfig where
  "exampleConfig =
     \<lparr>orgUrl = ''https://ado.example.com/tfs'', project = ''proj'',
      personalAccessToken = ''s3cret'', isOnPremises = True,
      collection = Some ''DefaultCollection'', apiVersion = None,
      auth = Some \<lparr>authType = ''ntlm'', username = Some ''alice'',
                   password = Some ''hunter2'', domain = None\<rparr>,
      entraAuthHandler = None\<rparr>"

definition exampleGitService :: "(string, string, unit) gitService" where
  "exampleGitService =
     \<lparr>config = exampleConfig,
      authHandler = NtlmHandler ''alice'' ''hunter2'' None,
      connection = \<lparr>serverUrl = ''https://ado.example.com/tfs/DefaultCollection'',
                    handler = NtlmHandler ''alice'' ''hunter2'' None,
                    options = \<lparr>headers = None\<rparr>\<rparr>,
      connectionGetGitApi = (\<lambda>h. Inr exampleGitApi)\<rparr>"


section \<open>Properties of configuration resolution and connection construction\<close>

text \<open>
  Claim C3. In every environment where \<^verbatim>\<open>AZURE_DEVOPS_ORG_URL\<close> or \<^verbatim>\<open>AZURE_DEVOPS_PROJECT\<close>
  (or both) is unset or empty, resolution throws; the single message lists exactly the
  missing variables, and no configuration is returned.
\<close>

theorem missing_required_field:
  assumes "\<not> truthy (env ''AZURE_DEVOPS_ORG_URL'') \<or> \<not> truthy (env ''AZURE_DEVOPS_PROJECT'')"
  shows "getAzureDevOpsConfig env =
    Inl (newError (''Missing required Azure DevOps configuration: '' @
      (if \<not> truthy (env ''AZURE_DEVOPS_ORG_URL'') \<and> \<not> truthy (env ''AZURE_DEVOPS_PROJECT'')
       then ''AZURE_DEVOPS_ORG_URL, AZURE_DEVOPS_PROJECT''
       else if \<not> truthy (env ''AZURE_DEVOPS_ORG_URL'') then ''AZURE_DEVOPS_ORG_URL''
       else ''AZURE_DEVOPS_PROJECT'') @
      ''. Please check .env file or environment variables.''))"
  using assms by (auto simp: getAzureDevOpsConfig_def Let_def)

theorem missing_required_field_witness:
  "getAzureDevOpsConfig (Map.empty(''AZURE_DEVOPS_ORG_URL'' \<mapsto> ''https://dev.azure.com/org'',
      ''AZURE_DEVOPS_PROJECT'' \<mapsto> [])) =
    Inl (newError ''Missing required Azure DevOps configuration: AZURE_DEVOPS_PROJECT. Please check .env file or environment variables.'')"
  using missing_required_field
    [of "Map.empty(''AZURE_DEVOPS_ORG_URL'' \<mapsto> ''https://dev.azure.com/org'',
      ''AZURE_DEVOPS_PROJECT'' \<mapsto> [])"]
  by simp

text \<open>
  Claim C4. An \<^verbatim>\<open>AZURE_DEVOPS_AUTH_TYPE\<close> outside pat, ntlm, basic, entra is read as pat:
  resolution returns (or throws) exactly what it does in the same environment with the
  variable set to pat.
\<close>

theorem unrecognized_auth_type_is_pat:
  assumes "env ''AZURE_DEVOPS_AUTH_TYPE'' = Some s"
    and "s \<noteq> ''pat''" and "s \<noteq> ''ntlm''" and "s \<noteq> ''basic''" and "s \<noteq> ''entra''"
  shows "getAzureDevOpsConfig env =
         getAzureDevOpsConfig (env(''AZURE_DEVOPS_AUTH_TYPE'' \<mapsto> ''pat''))"
  using assms by (simp add: getAzureDevOpsConfig_def Let_def)

theorem unrecognized_auth_type_is_pat_witness:
  "getAzureDevOpsConfig (Map.empty(''AZURE_DEVOPS_ORG_URL'' \<mapsto> ''https://dev.azure.com/org'',
      ''AZURE_DEVOPS_PROJECT'' \<mapsto> ''proj'', ''AZURE_DEVOPS_AUTH_TYPE'' \<mapsto> ''kerberos'')) =
   getAzureDevOpsConfig (Map.empty(''AZURE_DEVOPS_ORG_URL'' \<mapsto> ''https://dev.azure.com/org'',
      ''AZURE_DEVOPS_PROJECT'' \<mapsto> ''proj'', ''AZURE_DEVOPS_AUTH_TYPE'' \<mapsto> ''pat''))"
  using unrecognized_auth_type_is_pat
    [of "Map.empty(''AZURE_DEVOPS_ORG_URL'' \<mapsto> ''https://dev.azure.com/org'',
      ''AZURE_DEVOPS_PROJECT'' \<mapsto> ''proj'', ''AZURE_DEVOPS_AUTH_TYPE'' \<mapsto> ''kerberos'')"
     "''kerberos''"]
  by simp

text \<open>
  Claim C2, as stated, fails at configuration resolution: with entra requested for an
  on-premises server and no organization URL, the error thrown is the one for the missing
  required variables, not the unsupported-authentication error.
\<close>

theorem never_valid_resolution_counterexample:
  "getAzureDevOpsConfig (Map.empty(''AZURE_DEVOPS_AUTH_TYPE'' \<mapsto> ''entra'',
      ''AZURE_DEVOPS_IS_ON_PREMISES'' \<mapsto> ''true'')) =
     Inl (newError ''Missing required Azure DevOps configuration: AZURE_DEVOPS_ORG_URL, AZURE_DEVOPS_PROJECT. Please check .env file or environment variables.'')
   \<and> getAzureDevOpsConfig (Map.empty(''AZURE_DEVOPS_AUTH_TYPE'' \<mapsto> ''entra'',
      ''AZURE_DEVOPS_IS_ON_PREMISES'' \<mapsto> ''true'')) \<noteq>
     Inl (newError ''Azure Identity (DefaultAzureCredential) authentication is not supported for on-premises Azure DevOps.'')"
  by (simp add: getAzureDevOpsConfig_def newError_def)

text \<open>
  Claim C2, amended. The combinations entra with on-premises, and ntlm or basic with
  cloud, always fail. Service construction always fails with the unsupported-authentication
  error, whatever the other fields. Configuration resolution always fails too, and with
  the unsupported-authentication error whenever organization URL and project are both
  non-empty.
\<close>

theorem never_valid_combinations:
  \<open>(env ''AZURE_DEVOPS_AUTH_TYPE'' = Some ''entra'' \<and>
     env ''AZURE_DEVOPS_IS_ON_PREMISES'' = Some ''true'' \<longrightarrow>
       isl (getAzureDevOpsConfig env) \<and>
       (truthy (env ''AZURE_DEVOPS_ORG_URL'') \<and> truthy (env ''AZURE_DEVOPS_PROJECT'') \<longrightarrow>
          getAzureDevOpsConfig env =
            Inl (newError ''Azure Identity (DefaultAzureCredential) authentication is not supported for on-premises Azure DevOps.'')))
   \<and>
   (env ''AZURE_DEVOPS_AUTH_TYPE'' = Some t \<and> (t = ''ntlm'' \<or> t = ''basic'') \<and>
     env ''AZURE_DEVOPS_IS_ON_PREMISES'' \<noteq> Some ''true'' \<longrightarrow>
       isl (getAzureDevOpsConfig env) \<and>
       (truthy (env ''AZURE_DEVOPS_ORG_URL'') \<and> truthy (env ''AZURE_DEVOPS_PROJECT'') \<longrightarrow>
          getAzureDevOpsConfig env =
            Inl (newError (''Unsupported auth type "'' @ t @
                   ''" for Azure DevOps cloud. Must be 'pat' or 'entra'.''))))
   \<and>
   (auth cfg = Some a \<and> authType a = ''entra'' \<and> isOnPremises cfg \<longrightarrow>
      AzureDevOpsService webApiThrows cfg =
        Inl (newError ''Azure Identity (DefaultAzureCredential) authentication is not supported for on-premises Azure DevOps.''))
   \<and>
   (auth cfg = Some a \<and> (authType a = ''ntlm'' \<or> authType a = ''basic'') \<and>
     \<not> isOnPremises cfg \<longrightarrow>
      AzureDevOpsService webApiThrows cfg =
        Inl (newError (''Unsupported authentication type "'' @ authType a @
               ''" for Azure DevOps cloud.'')))\<close>
proof (intro conjI impI)
  assume "env ''AZURE_DEVOPS_AUTH_TYPE'' = Some ''entra'' \<and>
          env ''AZURE_DEVOPS_IS_ON_PREMISES'' = Some ''true''"
  then show "isl (getAzureDevOpsConfig env)"
    by (simp add: getAzureDevOpsConfig_def Let_def)
next
  assume "env ''AZURE_DEVOPS_AUTH_TYPE'' = Some ''entra'' \<and>
          env ''AZURE_DEVOPS_IS_ON_PREMISES'' = Some ''true''"
    and "truthy (env ''AZURE_DEVOPS_ORG_URL'') \<and> truthy (env ''AZURE_DEVOPS_PROJECT'')"
  then show "getAzureDevOpsConfig env =
      Inl (newError ''Azure Identity (DefaultAzureCredential) authentication is not supported for on-premises Azure DevOps.'')"
    by (simp add: getAzureDevOpsConfig_def Let_def)
next
  assume "env ''AZURE_DEVOPS_AUTH_TYPE'' = Some t \<and> (t = ''ntlm'' \<or> t = ''basic'') \<and>
          env ''AZURE_DEVOPS_IS_ON_PREMISES'' \<noteq> Some ''true''"
  then show "isl (getAzureDevOpsConfig env)"
    by (auto simp: getAzureDevOpsConfig_def Let_def)
next
  assume "env ''AZURE_DEVOPS_AUTH_TYPE'' = Some t \<and> (t = ''ntlm'' \<or> t = ''basic'') \<and>
          env ''AZURE_DEVOPS_IS_ON_PREMISES'' \<noteq> Some ''true''"
    and "truthy (env ''AZURE_DEVOPS_ORG_URL'') \<and> truthy (env ''AZURE_DEVOPS_PROJECT'')"
  then show \<open>getAzureDevOpsConfig env =
      Inl (newError (''Unsupported auth type "'' @ t @
             ''" for Azure DevOps cloud. Must be 'pat' or 'entra'.''))\<close>
    by (auto simp: getAzureDevOpsConfig_def Let_def)
next
  assume "auth cfg = Some a \<and> authType a = ''entra'' \<and> isOnPremises cfg"
  then show "AzureDevOpsService webApiThrows cfg =
      Inl (newError ''Azure Identity (DefaultAzureCredential) authentication is not supported for on-premises Azure DevOps.'')"
    by (simp add: AzureDevOpsService_def Let_def)
next
  assume "auth cfg = Some a \<and> (authType a = ''ntlm'' \<or> authType a = ''basic'') \<and>
          \<not> isOnPremises cfg"
  then show \<open>AzureDevOpsService webApiThrows cfg =
      Inl (newError (''Unsupported authentication type "'' @ authType a @
             ''" for Azure DevOps cloud.''))\<close>
    by (auto simp: AzureDevOpsService_def Let_def)
qed

theorem never_valid_combinations_witness:
  \<open>getAzureDevOpsConfig (Map.empty(''AZURE_DEVOPS_ORG_URL'' \<mapsto> ''https://ado.example.com'',
      ''AZURE_DEVOPS_PROJECT'' \<mapsto> ''proj'', ''AZURE_DEVOPS_AUTH_TYPE'' \<mapsto> ''entra'',
      ''AZURE_DEVOPS_IS_ON_PREMISES'' \<mapsto> ''true'')) =
     Inl (newError ''Azure Identity (DefaultAzureCredential) authentication is not supported for on-premises Azure DevOps.'')
   \<and> getAzureDevOpsConfig (Map.empty(''AZURE_DEVOPS_ORG_URL'' \<mapsto> ''https://dev.azure.com/org'',
      ''AZURE_DEVOPS_PROJECT'' \<mapsto> ''proj'', ''AZURE_DEVOPS_AUTH_TYPE'' \<mapsto> ''ntlm'',
      ''AZURE_DEVOPS_USERNAME'' \<mapsto> ''u'', ''AZURE_DEVOPS_PASSWORD'' \<mapsto> ''p'')) =
     Inl (newError ''Unsupported auth type "ntlm" for Azure DevOps cloud. Must be 'pat' or 'entra'.'')
   \<and> AzureDevOpsService (\<lambda>u h r. None)
       \<lparr>orgUrl = ''https://ado.example.com'', project = ''proj'', personalAccessToken = ''tok'',
        isOnPremises = True, collection = None, apiVersion = None,
        auth = Some \<lparr>authType = ''entra'', username = None, password = None, domain = None\<rparr>,
        entraAuthHandler = Some (EntraAuthHandler 0)\<rparr> =
     Inl (newError ''Azure Identity (DefaultAzureCredential) authentication is not supported for on-premises Azure DevOps.'')
   \<and> AzureDevOpsService (\<lambda>u h r. None)
       \<lparr>orgUrl = ''https://dev.azure.com/org'', project = ''proj'', personalAccessToken = ''tok'',
        isOnPremises = False, collection = None, apiVersion = None,
        auth = Some \<lparr>authType = ''basic'', username = Some ''u'', password = Some ''p'',
                     domain = None\<rparr>,
        entraAuthHandler = None\<rparr> =
     Inl (newError ''Unsupported authentication type "basic" for Azure DevOps cloud.'')\<close>
  using never_valid_combinations
    [where env = "Map.empty(''AZURE_DEVOPS_ORG_URL'' \<mapsto> ''https://ado.example.com'',
        ''AZURE_DEVOPS_PROJECT'' \<mapsto> ''proj'', ''AZURE_DEVOPS_AUTH_TYPE'' \<mapsto> ''entra'',
        ''AZURE_DEVOPS_IS_ON_PREMISES'' \<mapsto> ''true'')"
      and t = "''ntlm''"
      and cfg = "\<lparr>orgUrl = ''https://ado.example.com'', project = ''proj'',
        personalAccessToken = ''tok'', isOnPremises = True, collection = None,
        apiVersion = None,
        auth = Some \<lparr>authType = ''entra'', username = None, password = None, domain = None\<rparr>,
        entraAuthHandler = Some (EntraAuthHandler 0)\<rparr>"
      and a = "\<lparr>authType = ''entra'', username = None, password = None, domain = None\<rparr>"
      and webApiThrows = "\<lambda>u h r. None"]
    never_valid_combinations
    [where env = "Map.empty(''AZURE_DEVOPS_ORG_URL'' \<mapsto> ''https://dev.azure.com/org'',
        ''AZURE_DEVOPS_PROJECT'' \<mapsto> ''proj'', ''AZURE_DEVOPS_AUTH_TYPE'' \<mapsto> ''ntlm'',
        ''AZURE_DEVOPS_USERNAME'' \<mapsto> ''u'', ''AZURE_DEVOPS_PASSWORD'' \<mapsto> ''p'')"
      and t = "''ntlm''"
      and cfg = "\<lparr>orgUrl = ''https://dev.azure.com/org'', project = ''proj'',
        personalAccessToken = ''tok'', isOnPremises = False, collection = None,
        apiVersion = None,
        auth = Some \<lparr>authType = ''basic'', username = Some ''u'', password = Some ''p'',
                     domain = None\<rparr>,
        entraAuthHandler = None\<rparr>"
      and a = "\<lparr>authType = ''basic'', username = Some ''u'', password = Some ''p'',
                domain = None\<rparr>"
      and webApiThrows = "\<lambda>u h r. None"]
  by simp

text \<open>
  Claim C5. Whenever the constructor builds the connection, the base URL handed to the
  client is the organization URL itself for cloud hosting (whatever the collection), and
  the organization URL, a slash and the collection for on-premises hosting with a
  (non-empty) collection.
\<close>

theorem connection_base_url:
  assumes "AzureDevOpsService webApiThrows cfg = Inr svc"
  shows "(\<not> isOnPremises cfg \<longrightarrow> serverUrl (connection svc) = orgUrl cfg) \<and>
         (isOnPremises cfg \<and> collection cfg = Some c \<and> c \<noteq> [] \<longrightarrow>
            serverUrl (connection svc) = orgUrl cfg @ ''/'' @ c)"
  using assms
  by (auto simp: AzureDevOpsService_def Let_def split: sum.splits option.splits if_splits)

theorem connection_base_url_witness:
  "serverUrl (connection (projr (AzureDevOpsService (\<lambda>u h r. None)
       \<lparr>orgUrl = ''https://ado.example.com'', project = ''proj'', personalAccessToken = ''tok'',
        isOnPremises = True, collection = Some ''DefaultCollection'', apiVersion = None,
        auth = Some \<lparr>authType = ''pat'', username = None, password = None, domain = None\<rparr>,
        entraAuthHandler = None\<rparr>))) = ''https://ado.example.com/DefaultCollection''
   \<and> serverUrl (connection (projr (AzureDevOpsService (\<lambda>u h r. None)
       \<lparr>orgUrl = ''https://dev.azure.com/org'', project = ''proj'', personalAccessToken = ''tok'',
        isOnPremises = False, collection = Some ''DefaultCollection'', apiVersion = None,
        auth = None, entraAuthHandler = None\<rparr>))) = ''https://dev.azure.com/org''"
proof -
  let ?onPrem = "\<lparr>orgUrl = ''https://ado.example.com'', project = ''proj'',
        personalAccessToken = ''tok'', isOnPremises = True,
        collection = Some ''DefaultCollection'', apiVersion = None,
        auth = Some \<lparr>authType = ''pat'', username = None, password = None, domain = None\<rparr>,
        entraAuthHandler = None\<rparr>"
  let ?cloud = "\<lparr>orgUrl = ''https://dev.azure.com/org'', project = ''proj'',
        personalAccessToken = ''tok'', isOnPremises = False,
        collection = Some ''DefaultCollection'', apiVersion = None,
        auth = None, entraAuthHandler = None\<rparr>"
  have a: "AzureDevOpsService (\<lambda>u h r. None) ?onPrem =
           Inr (projr (AzureDevOpsService (\<lambda>u h r. None) ?onPrem))"
    by (simp add: AzureDevOpsService_def)
  have b: "AzureDevOpsService (\<lambda>u h r. None) ?cloud =
           Inr (projr (AzureDevOpsService (\<lambda>u h r. None) ?cloud))"
    by (simp add: AzureDevOpsService_def)
  show ?thesis
    using connection_base_url [OF a, of "''DefaultCollection''"]
          connection_base_url [OF b, of "''DefaultCollection''"]
    by simp
qed

section \<open>Properties of the pull-request operations\<close>

lemma numberToString_42: "numberToString 42 = ''42''"
  by (simp add: numberToString_def natToString.simps digitChar_def)

lemma validate_mismatch:
  assumes "gitApi.getPullRequest gitApi h repo prId proj = Inr (Some pr)"
    and "repository pr = Some r" and "id' r \<noteq> Some repo"
  shows "validatePullRequestRepository gitApi repo prId proj h =
     (Inl (newError (''Pull request '' @ numberToString prId @ '' belongs to repository '' @
            (case id' r of None \<Rightarrow> ''undefined'' | Some i \<Rightarrow> i) @ '', not '' @ repo)),
      h @ [GetPullRequest repo prId proj])"
  using assms
  by (simp add: validatePullRequestRepository_def andThen_def await_def throw_def)

text \<open>
  Claim C1. When the pull request fetched for validation carries a repository whose
  identifier is not the requested one, each of approvePullRequest, mergePullRequest,
  addPullRequestComment and completePullRequest throws the repository-mismatch error, and
  the only calls it has made to the SDK are getGitApi and the getPullRequest of the
  validation: no vote, update, comment or thread call is reached.
\<close>

theorem mutating_operations_stop_at_mismatch:
  fixes this :: "('o, 'r, 'c) gitService"
  defines "proj \<equiv> project (config this)"
  assumes api: "connectionGetGitApi this h = Inr gitApi"
    and pr: "gitApi.getPullRequest gitApi (h @ [GetGitApi]) repo prId proj = Inr (Some pr)"
    and r: "repository pr = Some r" and ne: "id' r \<noteq> Some repo"
    and ap: "repositoryId ap = repo \<and> pullRequestId ap = prId"
    and mp: "repositoryId mp = repo \<and> pullRequestId mp = prId"
    and cm: "repositoryId cm = repo \<and> pullRequestId cm = prId"
    and cp: "repositoryId cp = repo \<and> pullRequestId cp = prId"
  defines "mismatch \<equiv>
     newError (''Pull request '' @ numberToString prId @ '' belongs to repository '' @
       (case id' r of None \<Rightarrow> ''undefined'' | Some i \<Rightarrow> i) @ '', not '' @ repo)"
  shows "approvePullRequest this ap h =
           (Inl mismatch, h @ [GetGitApi, GetPullRequest repo prId proj])
   \<and> mergePullRequest this mp h =
           (Inl mismatch, h @ [GetGitApi, GetPullRequest repo prId proj])
   \<and> addPullRequestComment this cm h =
           (Inl mismatch, h @ [GetGitApi, GetPullRequest repo prId proj])
   \<and> completePullRequest this cp h =
           (Inl mismatch, h @ [GetGitApi, GetPullRequest repo prId proj])
   \<and> filter isMutating (snd (approvePullRequest this ap h)) = filter isMutating h
   \<and> filter isMutating (snd (mergePullRequest this mp h)) = filter isMutating h
   \<and> filter isMutating (snd (addPullRequestComment this cm h)) = filter isMutating h
   \<and> filter isMutating (snd (completePullRequest this cp h)) = filter isMutating h"
proof -
  note v = validate_mismatch [OF pr [unfolded proj_def] r ne]
  have g: "getGitApi this h = (Inr gitApi, h @ [GetGitApi])"
    by (simp add: getGitApi_def await_def api)
  show ?thesis
    using ap mp cp cm
    by (simp add: approvePullRequest_def mergePullRequest_def addPullRequestComment_def
          completePullRequest_def andThen_def g v mismatch_def proj_def)
qed

theorem mutating_operations_stop_at_mismatch_witness:
  "approvePullRequest exampleGitService \<lparr>repositoryId = ''repoA'', pullRequestId = 42\<rparr> [] =
     (Inl (newError ''Pull request 42 belongs to repository repoB, not repoA''),
      [GetGitApi, GetPullRequest ''repoA'' 42 ''proj''])
   \<and> mergePullRequest exampleGitService
       \<lparr>repositoryId = ''repoA'', pullRequestId = 42, mergeStrategy = Some ''squash''\<rparr> [] =
     (Inl (newError ''Pull request 42 belongs to repository repoB, not repoA''),
      [GetGitApi, GetPullRequest ''repoA'' 42 ''proj''])
   \<and> addPullRequestComment exampleGitService
       \<lparr>repositoryId = ''repoA'', pullRequestId = 42, content = ''looks good'',
        threadId = None, parentCommentId = None, threadContext = None, filePath = None,
        lineNumber = None\<rparr> [] =
     (Inl (newError ''Pull request 42 belongs to repository repoB, not repoA''),
      [GetGitApi, GetPullRequest ''repoA'' 42 ''proj''])
   \<and> completePullRequest exampleGitService
       \<lparr>repositoryId = ''repoA'', pullRequestId = 42, mergeStrategy = None,
        deleteSourceBranch = Some True\<rparr> [] =
     (Inl (newError ''Pull request 42 belongs to repository repoB, not repoA''),
      [GetGitApi, GetPullRequest ''repoA'' 42 ''proj''])"
proof -
  have api: "connectionGetGitApi exampleGitService [] = Inr exampleGitApi"
    by (simp add: exampleGitService_def)
  have pr: "gitApi.getPullRequest exampleGitApi ([] @ [GetGitApi]) ''repoA'' 42
              (project (config exampleGitService)) =
            Inr (Some \<lparr>repository = Some \<lparr>id' = Some ''repoB''\<rparr>, status = None,
                       mergeStatus = None, otherFields = ''title: Fix the build''\<rparr>)"
    by (simp add: exampleGitApi_def)
  have proj: "project (config exampleGitService) = ''proj''"
    by (simp add: exampleGitService_def exampleConfig_def)
  show ?thesis
    using mutating_operations_stop_at_mismatch [OF api pr,
        of "\<lparr>id' = Some ''repoB''\<rparr>"
           "\<lparr>repositoryId = ''repoA'', pullRequestId = 42\<rparr>"
           "\<lparr>repositoryId = ''repoA'', pullRequestId = 42, mergeStrategy = Some ''squash''\<rparr>"
           "\<lparr>repositoryId = ''repoA'', pullRequestId = 42, content = ''looks good'',
             threadId = None, parentCommentId = None, threadContext = None, filePath = None,
             lineNumber = None\<rparr>"
           "\<lparr>repositoryId = ''repoA'', pullRequestId = 42, mergeStrategy = None,
             deleteSourceBranch = Some True\<rparr>"]
    by (simp add: proj numberToString_42)
qed



text \<open>
  Claim C9. A pull request that is found but has no repository property passes the
  validation. Given that the SDK's getPullRequest returns at all, the validation throws
  exactly when no pull request came back or the one that came back has a repository whose
  identifier is not the requested one.
\<close>

theorem validation_skips_missing_repository:
  fixes gitApi :: "('o, 'r, 'c) gitApi"
  shows
  "(gitApi.getPullRequest gitApi h repo prId proj = Inr (Some pr) \<and> repository pr = None \<longrightarrow>
      validatePullRequestRepository gitApi repo prId proj h =
        (Inr (), h @ [GetPullRequest repo prId proj]))
   \<and> (gitApi.getPullRequest gitApi h repo prId proj = Inr res \<longrightarrow>
        (isl (fst (validatePullRequestRepository gitApi repo prId proj h)) \<longleftrightarrow>
           res = None \<or>
           (\<exists>p r. res = Some p \<and> repository p = Some r \<and> id' r \<noteq> Some repo)))"
  by (auto simp: validatePullRequestRepository_def andThen_def await_def throw_def resolve_def
      split: option.splits)

theorem validation_skips_missing_repository_witness:
  "validatePullRequestRepository exampleGitApi ''repoA'' 7 ''proj'' [] =
     (Inr (), [GetPullRequest ''repoA'' 7 ''proj''])
   \<and> isl (fst (validatePullRequestRepository exampleGitApi ''repoA'' 8 ''proj'' []))
   \<and> isl (fst (validatePullRequestRepository exampleGitApi ''repoA'' 42 ''proj'' []))
   \<and> \<not> isl (fst (validatePullRequestRepository exampleGitApi ''repoB'' 42 ''proj'' []))"
  using validation_skips_missing_repository
      [of exampleGitApi "[]" "''repoA''" 7 "''proj''"
          "\<lparr>repository = None, status = Some 1, mergeStatus = Some 6,
            otherFields = ''title: Add a test''\<rparr>"
          "Some \<lparr>repository = None, status = Some 1, mergeStatus = Some 6,
            otherFields = ''title: Add a test''\<rparr>"]
    validation_skips_missing_repository
      [of exampleGitApi "[]" "''repoA''" 8 "''proj''" _ None]
    validation_skips_missing_repository
      [of exampleGitApi "[]" "''repoA''" 42 "''proj''" _
          "Some \<lparr>repository = Some \<lparr>id' = Some ''repoB''\<rparr>, status = None,
            mergeStatus = None, otherFields = ''title: Fix the build''\<rparr>"]
    validation_skips_missing_repository
      [of exampleGitApi "[]" "''repoB''" 42 "''proj''" _
          "Some \<lparr>repository = Some \<lparr>id' = Some ''repoB''\<rparr>, status = None,
            mergeStatus = None, otherFields = ''title: Fix the build''\<rparr>"]
  by (simp add: exampleGitApi_def)

text \<open>
  Claim C10. When the SDK returns a pull request, GitService.getPullRequest returns it
  with the two status properties replaced by their texts: an absent status reads notSet
  (by way of 0), an absent merge status reads notSet (by way of 3), and the repository
  and every other property are the ones the SDK returned.
\<close>

theorem getPullRequest_absent_status:
  fixes this :: "('o, 'r, 'c) gitService"
  assumes "connectionGetGitApi this h = Inr gitApi"
    and "gitApi.getPullRequest gitApi (h @ [GetGitApi]) (repositoryId params)
           (pullRequestId params) (project (config this)) = Inr (Some pr)"
  shows "fst (GitService_getPullRequest this params h) =
     Inr \<lparr>repository = repository pr,
          status = Some (case status pr of None \<Rightarrow> ''notSet''
                         | Some n \<Rightarrow> getPullRequestStatusText n),
          mergeStatus = Some (case mergeStatus pr of None \<Rightarrow> ''notSet''
                              | Some n \<Rightarrow> getMergeStatusText n),
          otherFields = otherFields pr\<rparr>
   \<and> getPullRequestStatusText 0 = ''notSet'' \<and> getMergeStatusText 3 = ''notSet''"
  using assms
  by (simp add: GitService_getPullRequest_def getGitApi_def andThen_def await_def resolve_def
        Let_def getPullRequestStatusText_def getMergeStatusText_def split: option.splits)

theorem getPullRequest_absent_status_witness:
  "fst (GitService_getPullRequest exampleGitService
          \<lparr>repositoryId = ''repoB'', pullRequestId = 42\<rparr> []) =
     Inr \<lparr>repository = Some \<lparr>id' = Some ''repoB''\<rparr>, status = Some ''notSet'',
          mergeStatus = Some ''notSet'', otherFields = ''title: Fix the build''\<rparr>"
proof -
  have api: "connectionGetGitApi exampleGitService [] = Inr exampleGitApi"
    by (simp add: exampleGitService_def)
  have pr: "gitApi.getPullRequest exampleGitApi ([] @ [GetGitApi])
              (repositoryId \<lparr>repositoryId = ''repoB'', pullRequestId = 42\<rparr>)
              (pullRequestId \<lparr>repositoryId = ''repoB'', pullRequestId = 42\<rparr>)
              (project (config exampleGitService)) =
            Inr (Some \<lparr>repository = Some \<lparr>id' = Some ''repoB''\<rparr>, status = None,
                       mergeStatus = None, otherFields = ''title: Fix the build''\<rparr>)"
    by (simp add: exampleGitApi_def)
  show ?thesis
    using getPullRequest_absent_status [OF api pr] by simp
qed

section \<open>Properties of the connection-failure log\<close>

lemma dropWhile_host:
  "CHR ''/'' \<notin> set host \<Longrightarrow> rest = [] \<or> hd rest = CHR ''/'' \<Longrightarrow>
   dropWhile (\<lambda>x. x \<noteq> CHR ''/'') (host @ rest) = rest"
  by (cases rest) (auto simp: dropWhile_append3 dropWhile_append)

lemma maskHost_here:
  assumes "host \<noteq> []" and "CHR ''/'' \<notin> set host" and "rest = [] \<or> hd rest = CHR ''/''"
  shows "maskHost (''//'' @ host @ rest) = ''//***'' @ rest"
proof -
  obtain c cs where h: "host = c # cs"
    using assms(1) by (cases host) auto
  with assms have "c \<noteq> CHR ''/''" and "CHR ''/'' \<notin> set cs"
    by auto
  then show ?thesis
    using h assms(3) dropWhile_host [of cs rest] by simp
qed

lemma maskHost_scheme:
  assumes "CHR ''/'' \<notin> set scheme" and "host \<noteq> []" and "CHR ''/'' \<notin> set host"
    and "rest = [] \<or> hd rest = CHR ''/''"
  shows "maskHost (scheme @ ''//'' @ host @ rest) = scheme @ ''//***'' @ rest"
  using assms
proof (induction scheme)
  case Nil
  then show ?case
    using maskHost_here by simp
next
  case (Cons a scheme)
  then have IH: "maskHost (scheme @ ''//'' @ host @ rest) = scheme @ ''//***'' @ rest"
    by simp
  from Cons.prems have a: "a \<noteq> CHR ''/''"
    by auto
  obtain b c cs where e: "scheme @ ''//'' @ host @ rest = b # c # cs"
    by (cases scheme; cases "tl scheme") auto
  show ?case
    using IH a e by simp
qed

lemma maskHost_unchanged:
  "(CHR ''/'', CHR ''/'') \<notin> set (zip s (tl s)) \<Longrightarrow> maskHost s = s"
  by (induction s rule: maskHost.induct) auto

text \<open>
  Claim C8, as stated, fails for an organization URL written without its scheme: the
  pattern finds no two slashes, and the host is logged as it is.
\<close>

theorem unmasked_host_counterexample:
  "logConnectionFailure ''AzureDevOpsService'' (newError ''Invalid URL'')
     (exampleConfig\<lparr>orgUrl := ''ado.example.com/tfs''\<rparr>) =
   LogEntry ERROR ''AzureDevOpsService'' ''Connection failed''
     (Some (JsObject
        [(''config'', JsObject
            [(''orgUrl'', JsString ''ado.example.com/tfs''),
             (''authType'', JsString ''ntlm''),
             (''isOnPremises'', JsBoolean True),
             (''hasToken'', JsBoolean True),
             (''hasUsername'', JsBoolean True),
             (''collection'', JsString ''DefaultCollection''),
             (''apiVersion'', JsString ''not specified''),
             (''project'', JsString ''proj'')]),
         (''errorCode'', JsUndefined),
         (''errorType'', JsString ''Error'')]))
     (Some (newError ''Invalid URL''))"
  by (simp add: logConnectionFailure_def sanitizedConfig_def exampleConfig_def newError_def)

text \<open>
  Claim C8, amended. In the sanitized configuration of a logged connection failure, the
  host part of an organization URL \<open>scheme//host/rest\<close> is replaced by three stars; an
  organization URL without two adjacent slashes is logged unchanged. The token reaches the
  log only as the boolean \<open>hasToken\<close>, the user name only as the boolean
  \<open>hasUsername\<close>, and the password not at all: a configuration that differs from \<open>cfg\<close>
  only in token and password has the same sanitized configuration but for \<open>hasToken\<close>,
  and the same log entry altogether when the token is present in both or absent in both.
\<close>

theorem sanitized_connection_failure:
  fixes cfg :: azureDevOpsConfig and t :: string and p :: "string option"
  defines "cfg' \<equiv> cfg\<lparr>personalAccessToken := t,
                        auth := map_option (\<lambda>a. a\<lparr>password := p\<rparr>) (auth cfg)\<rparr>"
  shows
  "(orgUrl cfg = scheme @ ''//'' @ host @ rest \<and> CHR ''/'' \<notin> set scheme \<and> host \<noteq> [] \<and>
      CHR ''/'' \<notin> set host \<and> (rest = [] \<or> hd rest = CHR ''/'') \<longrightarrow>
      map_of (sanitizedConfig cfg) ''orgUrl'' = Some (JsString (scheme @ ''//***'' @ rest)))
   \<and> (orgUrl cfg \<noteq> [] \<and> (CHR ''/'', CHR ''/'') \<notin> set (zip (orgUrl cfg) (tl (orgUrl cfg))) \<longrightarrow>
      map_of (sanitizedConfig cfg) ''orgUrl'' = Some (JsString (orgUrl cfg)))
   \<and> map_of (sanitizedConfig cfg') ''hasToken'' = Some (JsBoolean (t \<noteq> []))
   \<and> (\<forall>k. k \<noteq> ''hasToken'' \<longrightarrow>
          map_of (sanitizedConfig cfg') k = map_of (sanitizedConfig cfg) k)
   \<and> ((t \<noteq> []) = (personalAccessToken cfg \<noteq> []) \<longrightarrow>
        logConnectionFailure component error cfg' = logConnectionFailure component error cfg)
   \<and> (auth cfg = Some a \<and> truthy u = truthy (username a) \<longrightarrow>
        sanitizedConfig (cfg\<lparr>auth := Some (a\<lparr>username := u\<rparr>)\<rparr>) = sanitizedConfig cfg)"
proof (intro conjI impI allI)
  assume "orgUrl cfg = scheme @ ''//'' @ host @ rest \<and> CHR ''/'' \<notin> set scheme \<and>
      host \<noteq> [] \<and> CHR ''/'' \<notin> set host \<and> (rest = [] \<or> hd rest = CHR ''/'')"
  then show "map_of (sanitizedConfig cfg) ''orgUrl'' =
             Some (JsString (scheme @ ''//***'' @ rest))"
    using maskHost_scheme [of scheme host rest] by (simp add: sanitizedConfig_def)
next
  assume "orgUrl cfg \<noteq> [] \<and>
          (CHR ''/'', CHR ''/'') \<notin> set (zip (orgUrl cfg) (tl (orgUrl cfg)))"
  then show "map_of (sanitizedConfig cfg) ''orgUrl'' = Some (JsString (orgUrl cfg))"
    using maskHost_unchanged [of "orgUrl cfg"] by (simp add: sanitizedConfig_def)
next
  show "map_of (sanitizedConfig cfg') ''hasToken'' = Some (JsBoolean (t \<noteq> []))"
    by (simp add: sanitizedConfig_def cfg'_def)
next
  fix k :: string
  assume "k \<noteq> ''hasToken''"
  then show "map_of (sanitizedConfig cfg') k = map_of (sanitizedConfig cfg) k"
    by (cases "auth cfg") (simp_all add: sanitizedConfig_def cfg'_def)
next
  assume "(t \<noteq> []) = (personalAccessToken cfg \<noteq> [])"
  then have "sanitizedConfig cfg' = sanitizedConfig cfg"
    by (cases "auth cfg") (simp_all add: sanitizedConfig_def cfg'_def)
  then show "logConnectionFailure component error cfg' =
             logConnectionFailure component error cfg"
    by (simp add: logConnectionFailure_def)
next
  assume "auth cfg = Some a \<and> truthy u = truthy (username a)"
  then show "sanitizedConfig (cfg\<lparr>auth := Some (a\<lparr>username := u\<rparr>)\<rparr>) = sanitizedConfig cfg"
    by (simp add: sanitizedConfig_def)
qed

theorem sanitized_connection_failure_witness:
  "map_of (sanitizedConfig exampleConfig) ''orgUrl'' = Some (JsString ''https://***/tfs'')
   \<and> map_of (sanitizedConfig (exampleConfig\<lparr>orgUrl := ''ado.example.com/tfs''\<rparr>)) ''orgUrl'' =
       Some (JsString ''ado.example.com/tfs'')
   \<and> map_of (sanitizedConfig (exampleConfig\<lparr>personalAccessToken := ''0ther'',
        auth := map_option (\<lambda>a. a\<lparr>password := Some ''swordfish''\<rparr>) (auth exampleConfig)\<rparr>))
        ''project'' = map_of (sanitizedConfig exampleConfig) ''project''
   \<and> logConnectionFailure ''AzureDevOpsService'' (newError ''connect ECONNREFUSED'')
        (exampleConfig\<lparr>personalAccessToken := ''0ther'',
           auth := map_option (\<lambda>a. a\<lparr>password := Some ''swordfish''\<rparr>) (auth exampleConfig)\<rparr>) =
      logConnectionFailure ''AzureDevOpsService'' (newError ''connect ECONNREFUSED'')
        exampleConfig
   \<and> sanitizedConfig (exampleConfig\<lparr>auth := Some
        (\<lparr>authType = ''ntlm'', username = Some ''alice'', password = Some ''hunter2'',
          domain = None\<rparr>\<lparr>username := Some ''bob''\<rparr>)\<rparr>) = sanitizedConfig exampleConfig"
  using sanitized_connection_failure
    [where cfg = exampleConfig and scheme = "''https:''" and host = "''ado.example.com''"
       and rest = "''/tfs''" and t = "''0ther''" and p = "Some ''swordfish''"
       and component = "''AzureDevOpsService''" and error = "newError ''connect ECONNREFUSED''"
       and a = "\<lparr>authType = ''ntlm'', username = Some ''alice'',
                  password = Some ''hunter2'', domain = None\<rparr>"
       and u = "Some ''bob''"]
    sanitized_connection_failure
    [where cfg = "exampleConfig\<lparr>orgUrl := ''ado.example.com/tfs''\<rparr>"]
  by (simp add: exampleConfig_def)

section \<open>Properties of the allowed tools\<close>







end
